theory Spec2Isabelle
  imports Complex_Main
begin

text \<open>
  A model of the request path of Portus, a proxy in front of the Portkey gateway:
  the authentication and request-id middleware (\<open>internal/middleware\<close>), the chain
  built in \<open>cmd/portus/main.go\<close>, the validation of model configurations
  (\<open>internal/config/loader.go\<close>), and from the handlers the outbound configuration, the
  upstream deadline, header forwarding and the defaults of the messages endpoint.
  Definitions come first, then the facts and the claims of the specification.
\<close>

section \<open>Byte strings and HTTP header maps\<close>

text \<open>
  Go strings are byte sequences; they are modelled as \<open>string\<close> (a list of 8-bit
  characters). The helpers below are the ASCII case mappings the program relies on.
\<close>

definition isLowerByte :: "char \<Rightarrow> bool" where
  "isLowerByte c = (97 \<le> (of_char c :: nat) \<and> (of_char c :: nat) \<le> 122)"

definition isUpperByte :: "char \<Rightarrow> bool" where
  "isUpperByte c = (65 \<le> (of_char c :: nat) \<and> (of_char c :: nat) \<le> 90)"

definition isDigitByte :: "char \<Rightarrow> bool" where
  "isDigitByte c = (48 \<le> (of_char c :: nat) \<and> (of_char c :: nat) \<le> 57)"

definition toLowerByte :: "char \<Rightarrow> char" where
  "toLowerByte c = (if isUpperByte c then char_of ((of_char c :: nat) + 32) else c)"

definition toUpperByte :: "char \<Rightarrow> char" where
  "toUpperByte c = (if isLowerByte c then char_of ((of_char c :: nat) - 32) else c)"

text \<open>
  \<open>strings.ToLower\<close>, restricted to what the program uses it for: the test whether the
  lowered header starts with the ASCII text \<open>bearer \<close>. Only ASCII letters lower to the
  bytes of that prefix, so the byte-wise ASCII mapping decides the test.
\<close>

definition ToLower :: "string \<Rightarrow> string" where
  "ToLower s = map toLowerByte s"

definition HasPrefix :: "string \<Rightarrow> string \<Rightarrow> bool" where
  "HasPrefix s p = (length p \<le> length s \<and> take (length p) s = p)"

text \<open>
  \<open>http.CanonicalHeaderKey\<close> of the Go standard library: a key made of header token
  bytes only gets its first letter and every letter after a hyphen in upper case and all
  other letters in lower case; a key with any other byte (a space included) is returned
  unchanged.
\<close>

definition validHeaderFieldByte :: "char \<Rightarrow> bool" where
  "validHeaderFieldByte c =
     (isDigitByte c \<or> isLowerByte c \<or> isUpperByte c \<or>
      c \<in> set (''!#$%&*+-.^_|~'' @ [CHR 0x27, CHR 0x60]))"

fun canonBytes :: "bool \<Rightarrow> string \<Rightarrow> string" where
  "canonBytes upper [] = []"
| "canonBytes upper (c # cs) =
     (let c' = (if upper then toUpperByte c else toLowerByte c)
      in c' # canonBytes (c' = CHR ''-'') cs)"

definition CanonicalHeaderKey :: "string \<Rightarrow> string" where
  "CanonicalHeaderKey s =
     (if list_all validHeaderFieldByte s then canonBytes True s else s)"

text \<open>
  \<open>http.Header\<close> is \<open>map[string][]string\<close>. \<open>Get\<close>, \<open>Set\<close>, \<open>Add\<close> and \<open>Del\<close>
  canonicalise the key they are given, as the library does.
\<close>

type_synonym Header = "string \<rightharpoonup> string list"

definition Header_Get :: "Header \<Rightarrow> string \<Rightarrow> string" where
  "Header_Get h key =
     (case h (CanonicalHeaderKey key) of
        None \<Rightarrow> []
      | Some [] \<Rightarrow> []
      | Some (v # _) \<Rightarrow> v)"

definition Header_Set :: "Header \<Rightarrow> string \<Rightarrow> string \<Rightarrow> Header" where
  "Header_Set h key v = h(CanonicalHeaderKey key \<mapsto> [v])"

definition Header_Add :: "Header \<Rightarrow> string \<Rightarrow> string \<Rightarrow> Header" where
  "Header_Add h key v =
     h(CanonicalHeaderKey key \<mapsto>
         (case h (CanonicalHeaderKey key) of None \<Rightarrow> [v] | Some vs \<Rightarrow> vs @ [v]))"

definition Header_Del :: "Header \<Rightarrow> string \<Rightarrow> Header" where
  "Header_Del h key = h(CanonicalHeaderKey key := None)"

section \<open>Requests, response writers and handlers\<close>

text \<open>
  A request carries its headers and the two context values the middleware stores
  (\<open>ContextKeyApplication\<close>, \<open>ContextKeyRequestID\<close>). The response writer is passed
  through the handlers and returned updated. Two fields record effects that are not part
  of the response: \<open>logs\<close> holds the logger calls and \<open>lookups\<close> the keys with which the
  proxy-key map was read, in order.
\<close>

record Request =
  reqMethod :: string
  urlPath :: string
  remoteAddr :: string
  reqHeader :: Header
  reqBody :: string
  ctxApplication :: "string option"
  ctxRequestID :: "string option"

datatype logEntry = Warn string "(string \<times> string) list"

record ResponseWriter =
  respHeader :: Header
  statusCode :: "nat option"
  respBody :: string
  isResponseWriter :: bool
  rwApplication :: string
  logs :: "logEntry list"
  lookups :: "string list"

type_synonym Handler = "ResponseWriter \<Rightarrow> Request \<Rightarrow> ResponseWriter"

definition StatusUnauthorized :: nat where
  "StatusUnauthorized = 401"

definition WriteHeader :: "ResponseWriter \<Rightarrow> nat \<Rightarrow> ResponseWriter" where
  "WriteHeader w code =
     (case statusCode w of None \<Rightarrow> w\<lparr>statusCode := Some code\<rparr> | Some _ \<Rightarrow> w)"

definition Write :: "ResponseWriter \<Rightarrow> string \<Rightarrow> ResponseWriter" where
  "Write w bs = (WriteHeader w 200)\<lparr>respBody := respBody w @ bs\<rparr>"

text \<open>
  \<open>http.Error\<close> of the standard library: it removes \<open>Content-Length\<close>, sets the content
  type to plain text and \<open>X-Content-Type-Options\<close>, writes the status and then the
  message followed by a newline.
\<close>

definition http_Error :: "ResponseWriter \<Rightarrow> string \<Rightarrow> nat \<Rightarrow> ResponseWriter" where
  "http_Error w msg code =
     (let h1 = Header_Del (respHeader w) ''Content-Length'';
          h2 = Header_Set h1 ''Content-Type'' ''text/plain; charset=utf-8'';
          h3 = Header_Set h2 ''X-Content-Type-Options'' ''nosniff'';
          w1 = WriteHeader (w\<lparr>respHeader := h3\<rparr>) code
      in Write w1 (msg @ [CHR 0x0A]))"

section \<open>Authentication middleware\<close>

record ProxyKey =
  Key :: string
  Application :: string

text \<open>The lookup map of \<open>AuthMiddleware\<close>: a later entry with the same key overwrites.\<close>

definition buildKeyMap :: "ProxyKey list \<Rightarrow> (string \<rightharpoonup> string)" where
  "buildKeyMap proxyKeys = fold (\<lambda>pk m. m(Key pk \<mapsto> Application pk)) proxyKeys Map.empty"

text \<open>
  The first part of the handler: the token and the header it came from. An
  \<open>Authorization\<close> value is used whenever it is not empty, with a leading \<open>Bearer \<close>
  (any letter case) removed; otherwise a non-empty \<open>x-api-key\<close> value is used.
\<close>

definition extractToken :: "Request \<Rightarrow> string \<times> string" where
  "extractToken r =
     (let authHeader = Header_Get (reqHeader r) ''Authorization''
      in if authHeader \<noteq> [] then
           (if HasPrefix (ToLower authHeader) ''bearer '' then drop 7 authHeader else authHeader,
            ''Authorization'')
         else
           (let apiKey = Header_Get (reqHeader r) ''x-api-key''
            in if apiKey \<noteq> [] then (apiKey, ''x-api-key'') else ([], [])))"

definition msgMissing :: string where
  "msgMissing = ''{\"error\": \"Missing Authorization header\"}''"

definition msgInvalid :: string where
  "msgInvalid = ''{\"error\": \"Invalid Authorization key\"}''"

definition AuthMiddleware :: "ProxyKey list \<Rightarrow> Handler \<Rightarrow> Handler" where
  "AuthMiddleware proxyKeys next w r =
     (let keyMap = buildKeyMap proxyKeys;
          (token, authSource) = extractToken r
      in if token = [] then
           http_Error
             (w\<lparr>logs := logs w @ [Warn ''missing authorization header''
                  [(''path'', urlPath r), (''remote_addr'', remoteAddr r)]]\<rparr>)
             msgMissing StatusUnauthorized
         else
           (let w1 = w\<lparr>lookups := lookups w @ [token]\<rparr>
            in case keyMap token of
                 None \<Rightarrow>
                   http_Error
                     (w1\<lparr>logs := logs w1 @ [Warn ''invalid authorization key''
                          [(''path'', urlPath r), (''remote_addr'', remoteAddr r),
                           (''source'', authSource)]]\<rparr>)
                     msgInvalid StatusUnauthorized
               | Some application \<Rightarrow>
                   (let r' = r\<lparr>ctxApplication := Some application\<rparr>;
                        w2 = (if isResponseWriter w1 then w1\<lparr>rwApplication := application\<rparr>
                              else w1)
                    in next w2 r')))"

section \<open>Request identifiers and the middleware chain\<close>

definition charset :: string where
  "charset = ''abcdefghijklmnopqrstuvwxyz0123456789''"

text \<open>
  The clock and the random source are inputs: \<open>now\<close> is the formatted time stamp and
  \<open>draw i\<close> the i-th value of the random source, reduced to the range of
  \<open>rand.IntN (len charset)\<close>.
\<close>

definition generateRandomString :: "nat \<Rightarrow> (nat \<Rightarrow> nat) \<Rightarrow> string" where
  "generateRandomString n draw = map (\<lambda>i. charset ! (draw i mod length charset)) [0..<n]"

definition generateRequestID :: "string \<Rightarrow> (nat \<Rightarrow> nat) \<Rightarrow> string" where
  "generateRequestID now draw = now @ ''-'' @ generateRandomString 8 draw"

definition RequestIDMiddleware :: "string \<Rightarrow> (nat \<Rightarrow> nat) \<Rightarrow> Handler \<Rightarrow> Handler" where
  "RequestIDMiddleware now draw next w r =
     (let requestID = generateRequestID now draw;
          r' = r\<lparr>ctxRequestID := Some requestID\<rparr>;
          w' = w\<lparr>respHeader := Header_Set (respHeader w) ''X-Request-ID'' requestID\<rparr>
      in next w' r')"

text \<open>
  \<open>chain\<close> wraps the handler with the last middleware first, so the first middleware of
  the list is the outermost one and runs first.
\<close>

definition chain :: "Handler \<Rightarrow> (Handler \<Rightarrow> Handler) list \<Rightarrow> Handler" where
  "chain h middleware = foldr (\<lambda>m h'. m h') middleware h"

text \<open>A protected route as \<open>main\<close> builds it: \<open>chain(handler, authMiddleware, requestIDMiddleware)\<close>.\<close>

definition protectedRoute ::
  "ProxyKey list \<Rightarrow> string \<Rightarrow> (nat \<Rightarrow> nat) \<Rightarrow> Handler \<Rightarrow> Handler" where
  "protectedRoute proxyKeys now draw handler =
     chain handler [AuthMiddleware proxyKeys, RequestIDMiddleware now draw]"

section \<open>Configuration data\<close>

text \<open>
  The structs of package \<open>models\<close>. Go's \<open>int\<close> is modelled as \<open>int\<close>, a pointer field
  as an option, a slice as a list. A value of type \<open>interface{}\<close> is a \<open>gvalue\<close>: what
  \<open>encoding/json\<close> produces when it decodes into an interface (\<open>GFloat\<close> for every JSON
  number), and the two typed values the handlers store themselves (\<open>GInt\<close>,
  \<open>GThinking\<close>). A \<open>map[string]interface{}\<close> is a partial function; a nil map reads
  as the empty map. Fields of \<open>TargetConfig\<close> and \<open>PortkeyConfig\<close> carry the prefixes
  \<open>t\<close> and \<open>pk\<close>, since record fields share one name space.
\<close>

record ThinkingConfig =
  thinkingType :: string
  BudgetTokens :: int

datatype gvalue =
    GNil
  | GBool bool
  | GFloat real
  | GString string
  | GArray "gvalue list"
  | GObject "(string \<times> gvalue) list"
  | GInt int
  | GThinking ThinkingConfig

record StrategyConfig =
  Mode :: string
  OnStatusCodes :: "int list"

record RetryConfig =
  Attempts :: int
  retryOnStatusCodes :: "int list"

record TargetConfig =
  tProvider :: string
  tAPIKey :: string
  tOverrideParams :: "string \<rightharpoonup> gvalue"
  tWeight :: int
  tAWSAccessKeyID :: string
  tAWSSecretAccessKey :: string
  tAWSRegion :: string
  tAWSSessionToken :: string

record ModelConfig =
  Provider :: string
  APIKey :: string
  Strategy :: "StrategyConfig option"
  Targets :: "TargetConfig list"
  OverrideParams :: "string \<rightharpoonup> gvalue"
  Retry :: "RetryConfig option"
  RequestTimeout :: int
  Thinking :: "ThinkingConfig option"
  BetaHeaders :: "string list"
  ReasoningEffort :: string
  ThinkingLevel :: string
  AWSAccessKeyID :: string
  AWSSecretAccessKey :: string
  AWSRegion :: string
  AWSSessionToken :: string
  VertexProjectID :: string
  VertexRegion :: string
  VertexServiceAccountJSON :: string

record PortkeyConfig =
  pkProvider :: string
  pkAPIKey :: string
  pkStrategy :: "StrategyConfig option"
  pkTargets :: "TargetConfig list"
  pkOverrideParams :: "string \<rightharpoonup> gvalue"
  pkRetry :: "RetryConfig option"
  pkRequestTimeout :: int
  pkAWSAccessKeyID :: string
  pkAWSSecretAccessKey :: string
  pkAWSRegion :: string
  pkAWSSessionToken :: string
  pkVertexProjectID :: string
  pkVertexRegion :: string
  pkVertexServiceAccountJSON :: string

text \<open>The zero values of the structs.\<close>

definition zeroModelConfig :: ModelConfig where
  "zeroModelConfig = \<lparr>Provider = [], APIKey = [], Strategy = None, Targets = [],
     OverrideParams = Map.empty, Retry = None, RequestTimeout = 0, Thinking = None,
     BetaHeaders = [], ReasoningEffort = [], ThinkingLevel = [],
     AWSAccessKeyID = [], AWSSecretAccessKey = [], AWSRegion = [], AWSSessionToken = [],
     VertexProjectID = [], VertexRegion = [], VertexServiceAccountJSON = []\<rparr>"

definition zeroTargetConfig :: TargetConfig where
  "zeroTargetConfig = \<lparr>tProvider = [], tAPIKey = [], tOverrideParams = Map.empty, tWeight = 0,
     tAWSAccessKeyID = [], tAWSSecretAccessKey = [], tAWSRegion = [], tAWSSessionToken = []\<rparr>"

definition zeroPortkeyConfig :: PortkeyConfig where
  "zeroPortkeyConfig = \<lparr>pkProvider = [], pkAPIKey = [], pkStrategy = None, pkTargets = [],
     pkOverrideParams = Map.empty, pkRetry = None, pkRequestTimeout = 0,
     pkAWSAccessKeyID = [], pkAWSSecretAccessKey = [], pkAWSRegion = [], pkAWSSessionToken = [],
     pkVertexProjectID = [], pkVertexRegion = [], pkVertexServiceAccountJSON = []\<rparr>"

section \<open>Validation of a model configuration\<close>

text \<open>One constructor for each error message of the validation functions.\<close>

datatype configError =
    ErrNoTargets string
  | ErrInvalidMode string string
  | ErrTargetNoProvider string nat
  | ErrTargetMissingAPIKey string nat string
  | ErrTargetMissingAWS string nat
  | ErrNoProvider string
  | ErrMissingAPIKey string string
  | ErrMissingAWS string
  | ErrMissingVertex string
  | ErrUnknownProvider string string

definition validateProviderConfig ::
  "string \<Rightarrow> string \<Rightarrow> nat \<Rightarrow> TargetConfig \<Rightarrow> configError option" where
  "validateProviderConfig alias provider targetIndex target =
     (if provider = ''anthropic'' \<or> provider = ''openai'' \<or> provider = ''google'' then
        (if tAPIKey target = [] then Some (ErrTargetMissingAPIKey alias targetIndex provider)
         else None)
      else if provider = ''bedrock'' then
        (if tAWSAccessKeyID target = [] \<or> tAWSSecretAccessKey target = [] \<or>
            tAWSRegion target = []
         then Some (ErrTargetMissingAWS alias targetIndex) else None)
      else if provider = ''vertex-ai'' then None
      else None)"

definition validateSingleProviderConfig :: "string \<Rightarrow> ModelConfig \<Rightarrow> configError option" where
  "validateSingleProviderConfig alias model =
     (if Provider model = ''anthropic'' \<or> Provider model = ''openai'' \<or>
         Provider model = ''google'' then
        (if APIKey model = [] then Some (ErrMissingAPIKey alias (Provider model)) else None)
      else if Provider model = ''bedrock'' then
        (if AWSAccessKeyID model = [] \<or> AWSSecretAccessKey model = [] \<or> AWSRegion model = []
         then Some (ErrMissingAWS alias) else None)
      else if Provider model = ''vertex-ai'' then
        (if VertexProjectID model = [] \<or> VertexRegion model = [] \<or>
            VertexServiceAccountJSON model = []
         then Some (ErrMissingVertex alias) else None)
      else Some (ErrUnknownProvider alias (Provider model)))"

text \<open>The loop over the targets of \<open>validateModelConfig\<close>, from index \<open>i\<close> on.\<close>

fun validateTargets :: "string \<Rightarrow> nat \<Rightarrow> TargetConfig list \<Rightarrow> configError option" where
  "validateTargets alias i [] = None"
| "validateTargets alias i (target # rest) =
     (if tProvider target = [] then Some (ErrTargetNoProvider alias i)
      else case validateProviderConfig alias (tProvider target) i target of
             Some err \<Rightarrow> Some err
           | None \<Rightarrow> validateTargets alias (Suc i) rest)"

definition validateModelConfig :: "string \<Rightarrow> ModelConfig \<Rightarrow> configError option" where
  "validateModelConfig alias model =
     (case Strategy model of
        Some strategy \<Rightarrow>
          (if length (Targets model) = 0 then Some (ErrNoTargets alias)
           else if Mode strategy \<noteq> ''fallback'' \<and> Mode strategy \<noteq> ''loadbalance''
           then Some (ErrInvalidMode alias (Mode strategy))
           else validateTargets alias 0 (Targets model))
      | None \<Rightarrow>
          (if Provider model = [] then Some (ErrNoProvider alias)
           else validateSingleProviderConfig alias model))"

section \<open>Building the outbound configuration\<close>

definition buildPortkeyConfig :: "ModelConfig \<Rightarrow> PortkeyConfig" where
  "buildPortkeyConfig model =
     (let config = zeroPortkeyConfig\<lparr>pkRetry := Retry model,
                                      pkRequestTimeout := RequestTimeout model\<rparr>
      in case Strategy model of
           Some strategy \<Rightarrow>
             config\<lparr>pkStrategy := Some strategy, pkTargets := Targets model\<rparr>
         | None \<Rightarrow>
             (let c1 = config\<lparr>pkProvider := Provider model, pkAPIKey := APIKey model,
                              pkOverrideParams := Map.empty ++ OverrideParams model\<rparr>;
                  c2 = (if Provider model = ''bedrock''
                        then c1\<lparr>pkAWSAccessKeyID := AWSAccessKeyID model,
                                pkAWSSecretAccessKey := AWSSecretAccessKey model,
                                pkAWSRegion := AWSRegion model,
                                pkAWSSessionToken := AWSSessionToken model\<rparr>
                        else c1);
                  c3 = (if Provider model = ''vertex-ai''
                        then c2\<lparr>pkVertexProjectID := VertexProjectID model,
                                pkVertexRegion := VertexRegion model,
                                pkVertexServiceAccountJSON := VertexServiceAccountJSON model\<rparr>
                        else c2)
              in c3))"

section \<open>The upstream deadline\<close>

definition getTimeout :: "ModelConfig \<Rightarrow> int" where
  "getTimeout model =
     (if RequestTimeout model > 0 then RequestTimeout model div 1000 else 60)"

text \<open>
  \<open>time.Duration\<close> is a signed 64-bit count of nanoseconds and \<open>time.Second\<close> is
  \<open>10^9\<close>; the product in \<open>handleProxyRequest\<close> wraps around as Go's integer
  multiplication does.
\<close>

definition wrapInt64 :: "int \<Rightarrow> int" where
  "wrapInt64 x = (x + 2 ^ 63) mod 2 ^ 64 - 2 ^ 63"

definition requestDeadline :: "ModelConfig \<Rightarrow> int" where
  "requestDeadline modelConfig = wrapInt64 (getTimeout modelConfig * 1000000000)"

section \<open>Header forwarding\<close>

definition hopByHopHeaders :: "string set" where
  "hopByHopHeaders = {''Connection'', ''Keep-Alive'', ''Proxy-Authenticate'',
     ''Proxy-Authorization'', ''Te'', ''Trailers'', ''Transfer-Encoding'', ''Upgrade'',
     ''Authorization'', ''X-Api-Key''}"

text \<open>
  \<open>copyHeaders\<close> ranges over the source map; \<open>src\<close> lists its entries in the order of
  the iteration (a map has each key once). The destination is returned updated.
\<close>

definition copyHeaders :: "(string \<times> string list) list \<Rightarrow> Header \<Rightarrow> Header" where
  "copyHeaders src dst =
     fold (\<lambda>(key, values) d.
             if CanonicalHeaderKey key \<in> hopByHopHeaders then d
             else fold (\<lambda>v d'. Header_Add d' key v) values d)
       src dst"

text \<open>
  What reaches the destination under the name \<open>h\<close>: the values of the source entries
  whose canonical key is \<open>h\<close>, in order, unless \<open>h\<close> is one of the excluded names.
\<close>

definition forwardedValues :: "(string \<times> string list) list \<Rightarrow> string \<Rightarrow> string list" where
  "forwardedValues src h =
     (if h \<in> hopByHopHeaders then []
      else concat (map snd (filter (\<lambda>kv. CanonicalHeaderKey (fst kv) = h) src)))"

text \<open>The values a header map holds under a name (none when the name is absent).\<close>

definition valuesAt :: "Header \<Rightarrow> string \<Rightarrow> string list" where
  "valuesAt d h = (case d h of None \<Rightarrow> [] | Some vs \<Rightarrow> vs)"

section \<open>Defaults of the messages endpoint\<close>








section \<open>Sample inputs\<close>

text \<open>
  Concrete requests, keys, configurations and handlers at which the theorems below are
  instantiated.
\<close>

definition freshWriter :: ResponseWriter where
  "freshWriter = \<lparr>respHeader = Map.empty, statusCode = None, respBody = [],
     isResponseWriter = True, rwApplication = [], logs = [], lookups = []\<rparr>"

definition mkRequest :: "Header \<Rightarrow> Request" where
  "mkRequest h = \<lparr>reqMethod = ''GET'', urlPath = ''/v1/models'', remoteAddr = ''10.0.0.1:5000'',
     reqHeader = h, reqBody = [], ctxApplication = None, ctxRequestID = None\<rparr>"

definition okHandler :: Handler where
  "okHandler w r = WriteHeader w 200"

definition testKeys :: "ProxyKey list" where
  "testKeys = [\<lparr>Key = ''valid-key'', Application = ''app''\<rparr>]"

definition bearerRequest :: "string \<Rightarrow> Request" where
  "bearerRequest k = mkRequest [''Authorization'' \<mapsto> [''Bearer '' @ k]]"


definition noHeaderRequest :: Request where
  "noHeaderRequest = mkRequest Map.empty"

definition sampleNow :: string where
  "sampleNow = ''20260101120000''"

definition sampleDraw :: "nat \<Rightarrow> nat" where
  "sampleDraw i = i * 7"

definition emptyApiKeyRequest :: Request where
  "emptyApiKeyRequest = mkRequest [''X-Api-Key'' \<mapsto> [[]]]"

definition fallbackStrategy :: StrategyConfig where
  "fallbackStrategy = \<lparr>Mode = ''fallback'', OnStatusCodes = []\<rparr>"

definition openaiTarget :: TargetConfig where
  "openaiTarget = zeroTargetConfig\<lparr>tProvider := ''openai'', tAPIKey := ''sk-1''\<rparr>"

definition anthropicTarget :: TargetConfig where
  "anthropicTarget = zeroTargetConfig\<lparr>tProvider := ''anthropic'', tAPIKey := ''sk-2''\<rparr>"

definition multiTargetModel :: ModelConfig where
  "multiTargetModel = zeroModelConfig\<lparr>Strategy := Some fallbackStrategy,
     Targets := [openaiTarget, anthropicTarget], RequestTimeout := 30000\<rparr>"

definition noTargetsModel :: ModelConfig where
  "noTargetsModel = zeroModelConfig\<lparr>Strategy := Some fallbackStrategy\<rparr>"

definition roundRobinModel :: ModelConfig where
  "roundRobinModel = zeroModelConfig\<lparr>
     Strategy := Some \<lparr>Mode = ''roundrobin'', OnStatusCodes = []\<rparr>,
     Targets := [openaiTarget]\<rparr>"

definition unknownTargetModel :: ModelConfig where
  "unknownTargetModel = zeroModelConfig\<lparr>Strategy := Some fallbackStrategy,
     Targets := [zeroTargetConfig\<lparr>tProvider := ''fakeprovider''\<rparr>]\<rparr>"

definition vertexTargetModel :: ModelConfig where
  "vertexTargetModel = zeroModelConfig\<lparr>Strategy := Some fallbackStrategy,
     Targets := [zeroTargetConfig\<lparr>tProvider := ''vertex-ai''\<rparr>]\<rparr>"

definition bedrockModel :: ModelConfig where
  "bedrockModel = zeroModelConfig\<lparr>Provider := ''bedrock'', AWSAccessKeyID := ''AKIA'',
     AWSSecretAccessKey := ''secret'', AWSRegion := ''us-east-1'', AWSSessionToken := ''token'',
     VertexProjectID := ''stray-project'',
     OverrideParams := [''model'' \<mapsto> GString ''claude'']\<rparr>"

definition vertexModel :: ModelConfig where
  "vertexModel = zeroModelConfig\<lparr>Provider := ''vertex-ai'', VertexProjectID := ''my-project'',
     VertexRegion := ''us-central1'', VertexServiceAccountJSON := ''{}'',
     AWSRegion := ''stray-region'', Retry := Some \<lparr>Attempts = 3, retryOnStatusCodes = []\<rparr>\<rparr>"

definition sampleHeaders :: "(string \<times> string list) list" where
  "sampleHeaders =
     [(''Content-Type'', [''application/json'']),
      (''Authorization'', [''Bearer secret'']),
      (''x-api-key'', [''secret-key'']),
      (''Connection'', [''keep-alive'']),
      (''X-Custom-Header'', [''a'', ''b''])]"















definition bothHeadersRequest :: Request where
  "bothHeadersRequest =
     mkRequest [''Authorization'' \<mapsto> [''Bearer valid-key''], ''X-Api-Key'' \<mapsto> [[]]]"

section \<open>Basic facts\<close>

lemma canon_Authorization: "CanonicalHeaderKey ''Authorization'' = ''Authorization''"
  by code_simp
lemma canon_x_api_key: "CanonicalHeaderKey ''x-api-key'' = ''X-Api-Key''"
  by code_simp
lemma canon_X_Request_ID: "CanonicalHeaderKey ''X-Request-ID'' = ''X-Request-Id''"
  by code_simp
lemma canon_Content_Length: "CanonicalHeaderKey ''Content-Length'' = ''Content-Length''"
  by code_simp
lemma canon_Content_Type: "CanonicalHeaderKey ''Content-Type'' = ''Content-Type''"
  by code_simp
lemma canon_nosniff: "CanonicalHeaderKey ''X-Content-Type-Options'' = ''X-Content-Type-Options''"
  by code_simp

lemmas canon_simps = canon_Authorization canon_x_api_key canon_X_Request_ID
  canon_Content_Length canon_Content_Type canon_nosniff

lemma buildKeyMap_map_of:
  "buildKeyMap ks = map_of (rev (map (\<lambda>pk. (Key pk, Application pk)) ks))"
proof -
  have "fold (\<lambda>pk m. m(Key pk \<mapsto> Application pk)) ks m0
        = m0 ++ map_of (rev (map (\<lambda>pk. (Key pk, Application pk)) ks))" for m0
    by (induction ks arbitrary: m0) (simp_all add: map_add_upd_left)
  then show ?thesis by (simp add: buildKeyMap_def)
qed

lemma buildKeyMap_None: "buildKeyMap ks k = None \<longleftrightarrow> k \<notin> Key ` set ks"
  by (simp add: buildKeyMap_map_of map_of_eq_None_iff image_image)

lemma buildKeyMap_distinct:
  assumes "distinct (map Key ks)" and "pk \<in> set ks"
  shows "buildKeyMap ks (Key pk) = Some (Application pk)"
proof -
  let ?al = "rev (map (\<lambda>pk. (Key pk, Application pk)) ks)"
  have "map fst ?al = rev (map Key ks)" by (simp add: rev_map comp_def)
  then have "distinct (map fst ?al)" using assms(1) by simp
  moreover have "(Key pk, Application pk) \<in> set ?al" using assms(2) by auto
  ultimately show ?thesis by (simp add: buildKeyMap_map_of)
qed

lemma http_Error_status:
  "statusCode (http_Error w msg code) = (case statusCode w of None \<Rightarrow> Some code | Some s \<Rightarrow> Some s)"
  by (simp add: http_Error_def Write_def WriteHeader_def Let_def split: option.splits)

lemma http_Error_body: "respBody (http_Error w msg code) = respBody w @ msg @ [CHR 0x0A]"
  by (simp add: http_Error_def Write_def WriteHeader_def Let_def split: option.splits)

lemma http_Error_lookups: "lookups (http_Error w msg code) = lookups w"
  by (simp add: http_Error_def Write_def WriteHeader_def Let_def split: option.splits)

lemma http_Error_header:
  "respHeader (http_Error w msg code) =
     (respHeader w)(''Content-Length'' := None,
        ''Content-Type'' \<mapsto> [''text/plain; charset=utf-8''],
        ''X-Content-Type-Options'' \<mapsto> [''nosniff''])"
  by (simp add: http_Error_def Write_def WriteHeader_def Let_def Header_Set_def Header_Del_def
      canon_simps split: option.splits)

lemma http_Error_request_id:
  "respHeader (http_Error w msg code) ''X-Request-Id'' = respHeader w ''X-Request-Id''"
  by (simp add: http_Error_header)

lemma AuthMiddleware_missing:
  assumes "fst (extractToken r) = []"
  shows "AuthMiddleware ks next w r =
     http_Error (w\<lparr>logs := logs w @ [Warn ''missing authorization header''
                  [(''path'', urlPath r), (''remote_addr'', remoteAddr r)]]\<rparr>)
       msgMissing StatusUnauthorized"
  using assms by (cases "extractToken r") (simp add: AuthMiddleware_def Let_def)

lemma AuthMiddleware_invalid:
  assumes "extractToken r = (token, src)" "token \<noteq> []" "buildKeyMap ks token = None"
  shows "AuthMiddleware ks next w r =
     http_Error (w\<lparr>lookups := lookups w @ [token],
                   logs := logs w @ [Warn ''invalid authorization key''
                          [(''path'', urlPath r), (''remote_addr'', remoteAddr r),
                           (''source'', src)]]\<rparr>)
       msgInvalid StatusUnauthorized"
  using assms by (simp add: AuthMiddleware_def Let_def)

lemma AuthMiddleware_valid:
  assumes "extractToken r = (token, src)" "token \<noteq> []" "buildKeyMap ks token = Some app"
  shows "AuthMiddleware ks next w r =
     next (if isResponseWriter w
           then w\<lparr>lookups := lookups w @ [token], rwApplication := app\<rparr>
           else w\<lparr>lookups := lookups w @ [token]\<rparr>)
          (r\<lparr>ctxApplication := Some app\<rparr>)"
  using assms by (simp add: AuthMiddleware_def Let_def)

lemma HasPrefix_bearer: "HasPrefix (ToLower (''Bearer '' @ k)) ''bearer ''"
  by (simp add: HasPrefix_def ToLower_def toLowerByte_def isUpperByte_def) code_simp

lemma extractToken_bearerRequest:
  "extractToken (bearerRequest k) = (k, ''Authorization'')"
  using HasPrefix_bearer [of k]
  by (simp add: extractToken_def bearerRequest_def mkRequest_def Header_Get_def canon_simps Let_def)


lemma extractToken_no_headers:
  assumes "reqHeader r ''Authorization'' = None" "reqHeader r ''X-Api-Key'' = None"
  shows "extractToken r = ([], [])"
  using assms by (simp add: extractToken_def Header_Get_def canon_simps Let_def)

section \<open>Claims about the authenticator\<close>



lemma testKeys_valid: "buildKeyMap testKeys ''valid-key'' = Some ''app''"
  by (simp add: buildKeyMap_def testKeys_def)

lemma testKeys_wrong: "buildKeyMap testKeys ''wrong-key'' = None"
  by (simp add: buildKeyMap_def testKeys_def)







lemma extractToken_empty_cases:
  assumes "(Header_Get (reqHeader r) ''Authorization'' \<noteq> [] \<and>
            HasPrefix (ToLower (Header_Get (reqHeader r) ''Authorization'')) ''bearer '' \<and>
            drop 7 (Header_Get (reqHeader r) ''Authorization'') = []) \<or>
           (Header_Get (reqHeader r) ''Authorization'' = [] \<and>
            Header_Get (reqHeader r) ''x-api-key'' = [])"
  shows "fst (extractToken r) = []"
  using assms by (auto simp add: extractToken_def Let_def)

text \<open>
  Claim C10 says that every request with a present but empty \<open>x-api-key\<close> header is
  answered 401. The \<open>x-api-key\<close> header is read only when \<open>Authorization\<close> gives no
  value: a request with a valid bearer token and an empty \<open>x-api-key\<close> header is
  authenticated.
\<close>

theorem empty_api_key_beside_bearer_counterexample:
  "reqHeader bothHeadersRequest ''X-Api-Key'' = Some [[]] \<and>
   Header_Get (reqHeader bothHeadersRequest) ''x-api-key'' = [] \<and>
   AuthMiddleware testKeys okHandler freshWriter bothHeadersRequest =
     okHandler (freshWriter\<lparr>lookups := [''valid-key''], rwApplication := ''app''\<rparr>)
       (bothHeadersRequest\<lparr>ctxApplication := Some ''app''\<rparr>) \<and>
   statusCode (AuthMiddleware testKeys okHandler freshWriter bothHeadersRequest) = Some 200"
proof -
  have g: "Header_Get (reqHeader bothHeadersRequest) ''Authorization'' = ''Bearer '' @ ''valid-key''"
    by (simp add: bothHeadersRequest_def mkRequest_def Header_Get_def canon_simps)
  have e: "extractToken bothHeadersRequest = (''valid-key'', ''Authorization'')"
    unfolding extractToken_def g using HasPrefix_bearer [of "''valid-key''"]
    by (simp add: Let_def)
  have f: "isResponseWriter freshWriter" "lookups freshWriter = []" "statusCode freshWriter = None"
    by (simp_all add: freshWriter_def)
  have a: "AuthMiddleware testKeys okHandler freshWriter bothHeadersRequest =
     okHandler (freshWriter\<lparr>lookups := [''valid-key''], rwApplication := ''app''\<rparr>)
       (bothHeadersRequest\<lparr>ctxApplication := Some ''app''\<rparr>)"
    using AuthMiddleware_valid [OF e _ testKeys_valid, of okHandler freshWriter] by (simp add: f)
  have h: "reqHeader bothHeadersRequest ''X-Api-Key'' = Some [[]]"
    "Header_Get (reqHeader bothHeadersRequest) ''x-api-key'' = []"
    by (simp_all add: bothHeadersRequest_def mkRequest_def Header_Get_def canon_simps)
  show ?thesis
    by (simp add: a h okHandler_def WriteHeader_def f)
qed

text \<open>
  Claim C10, amended. A request whose \<open>Authorization\<close> value is not empty but is only the
  \<open>Bearer \<close> prefix (so that nothing is left after stripping it), and a request without an
  \<open>Authorization\<close> value whose \<open>x-api-key\<close> value is empty, are answered 401 with the
  body \<open>{"error": "Missing Authorization header"}\<close>. The whole result equals the one for
  the same request with no header at all, and the proxy-key map is not read: \<open>lookups\<close>
  is unchanged.
\<close>

theorem empty_token_is_missing:
  assumes "(Header_Get (reqHeader r) ''Authorization'' \<noteq> [] \<and>
            HasPrefix (ToLower (Header_Get (reqHeader r) ''Authorization'')) ''bearer '' \<and>
            drop 7 (Header_Get (reqHeader r) ''Authorization'') = []) \<or>
           (Header_Get (reqHeader r) ''Authorization'' = [] \<and>
            Header_Get (reqHeader r) ''x-api-key'' = [])"
  shows "AuthMiddleware ks next w r =
           http_Error (w\<lparr>logs := logs w @ [Warn ''missing authorization header''
                          [(''path'', urlPath r), (''remote_addr'', remoteAddr r)]]\<rparr>)
             ''{\"error\": \"Missing Authorization header\"}'' 401 \<and>
         AuthMiddleware ks next w r = AuthMiddleware ks next w (r\<lparr>reqHeader := Map.empty\<rparr>) \<and>
         lookups (AuthMiddleware ks next w r) = lookups w"
proof -
  have e: "fst (extractToken r) = []" by (rule extractToken_empty_cases [OF assms])
  have e0: "fst (extractToken (r\<lparr>reqHeader := Map.empty\<rparr>)) = []"
    by (simp add: extractToken_no_headers)
  show ?thesis
    by (simp add: AuthMiddleware_missing [OF e] AuthMiddleware_missing [OF e0]
          http_Error_lookups msgMissing_def StatusUnauthorized_def)
qed

theorem empty_token_is_missing_witness:
  "lookups (AuthMiddleware testKeys okHandler freshWriter (bearerRequest [])) = [] \<and>
   statusCode (AuthMiddleware testKeys okHandler freshWriter (bearerRequest [])) = Some 401 \<and>
   respBody (AuthMiddleware testKeys okHandler freshWriter emptyApiKeyRequest)
     = ''{\"error\": \"Missing Authorization header\"}'' @ [CHR 0x0A] \<and>
   AuthMiddleware testKeys okHandler freshWriter emptyApiKeyRequest
     = AuthMiddleware testKeys okHandler freshWriter (emptyApiKeyRequest\<lparr>reqHeader := Map.empty\<rparr>)"
proof -
  have g1: "Header_Get (reqHeader (bearerRequest [])) ''Authorization'' = ''Bearer ''"
    by (simp add: bearerRequest_def mkRequest_def Header_Get_def canon_simps)
  have p: "HasPrefix (ToLower ''Bearer '') ''bearer ''" by code_simp
  have a: "(Header_Get (reqHeader (bearerRequest [])) ''Authorization'' \<noteq> [] \<and>
            HasPrefix (ToLower (Header_Get (reqHeader (bearerRequest [])) ''Authorization'')) ''bearer '' \<and>
            drop 7 (Header_Get (reqHeader (bearerRequest [])) ''Authorization'') = []) \<or>
           (Header_Get (reqHeader (bearerRequest [])) ''Authorization'' = [] \<and>
            Header_Get (reqHeader (bearerRequest [])) ''x-api-key'' = [])"
    using p by (simp add: g1)
  have b: "(Header_Get (reqHeader emptyApiKeyRequest) ''Authorization'' \<noteq> [] \<and>
            HasPrefix (ToLower (Header_Get (reqHeader emptyApiKeyRequest) ''Authorization'')) ''bearer '' \<and>
            drop 7 (Header_Get (reqHeader emptyApiKeyRequest) ''Authorization'') = []) \<or>
           (Header_Get (reqHeader emptyApiKeyRequest) ''Authorization'' = [] \<and>
            Header_Get (reqHeader emptyApiKeyRequest) ''x-api-key'' = [])"
    by (simp add: emptyApiKeyRequest_def mkRequest_def Header_Get_def canon_simps)
  have s: "statusCode freshWriter = None" "respBody freshWriter = []" "lookups freshWriter = []"
    by (simp_all add: freshWriter_def)
  note ta = empty_token_is_missing [OF a, of testKeys okHandler freshWriter]
  note tb = empty_token_is_missing [OF b, of testKeys okHandler freshWriter]
  have c1: "lookups (AuthMiddleware testKeys okHandler freshWriter (bearerRequest [])) = []"
    using ta [THEN conjunct2, THEN conjunct2] by (simp add: s)
  have c2: "statusCode (AuthMiddleware testKeys okHandler freshWriter (bearerRequest [])) = Some 401"
    by (simp add: ta [THEN conjunct1] http_Error_status s)
  have c3: "respBody (AuthMiddleware testKeys okHandler freshWriter emptyApiKeyRequest)
     = ''{\"error\": \"Missing Authorization header\"}'' @ [CHR 0x0A]"
    by (simp add: tb [THEN conjunct1] http_Error_body s)
  show ?thesis
    using c1 c2 c3 tb [THEN conjunct2, THEN conjunct1] by blast
qed

lemma protectedRoute_unfold:
  "protectedRoute ks now draw handler =
     AuthMiddleware ks (RequestIDMiddleware now draw handler)"
  by (simp add: protectedRoute_def chain_def)

section \<open>Claims about the request identifier\<close>

text \<open>
  Claim C2 says that every response carries \<open>X-Request-ID\<close> and that the identifier is
  assigned before authentication. \<open>main\<close> builds each protected route as
  \<open>chain(handler, authMiddleware, requestIDMiddleware)\<close>, which makes the authenticator
  the outermost handler: a request without credentials is answered 401 before the
  request-id middleware runs, and the response has no such header.
\<close>

theorem request_id_missing_on_401_counterexample:
  "statusCode (protectedRoute testKeys sampleNow sampleDraw okHandler freshWriter noHeaderRequest)
     = Some 401 \<and>
   respHeader (protectedRoute testKeys sampleNow sampleDraw okHandler freshWriter noHeaderRequest)
     ''X-Request-Id'' = None"
proof -
  have a: "fst (extractToken noHeaderRequest) = []"
    by (simp add: extractToken_no_headers noHeaderRequest_def mkRequest_def)
  show ?thesis
    by (simp add: protectedRoute_unfold AuthMiddleware_missing [OF a] http_Error_status
          http_Error_request_id freshWriter_def StatusUnauthorized_def)
qed

text \<open>
  Claim C2, amended. On a protected route the identifier is assigned after authentication
  has succeeded: the endpoint handler then receives a response writer on which
  \<open>X-Request-Id\<close> is already set to the generated identifier, and a request whose context
  holds the same identifier. When authentication fails, the route behaves as the
  authenticator alone: status 401, and \<open>X-Request-Id\<close> is left as it was (absent on a
  fresh response).
\<close>

theorem request_id_set_after_auth:
  assumes "extractToken r = (token, src)"
  shows "(token \<noteq> [] \<and> buildKeyMap ks token = Some app \<longrightarrow>
            protectedRoute ks now draw handler w r =
              handler
                ((if isResponseWriter w
                  then w\<lparr>lookups := lookups w @ [token], rwApplication := app\<rparr>
                  else w\<lparr>lookups := lookups w @ [token]\<rparr>)
                 \<lparr>respHeader := (respHeader w)(''X-Request-Id'' \<mapsto> [generateRequestID now draw])\<rparr>)
                (r\<lparr>ctxApplication := Some app,
                   ctxRequestID := Some (generateRequestID now draw)\<rparr>)) \<and>
         (token = [] \<or> buildKeyMap ks token = None \<longrightarrow>
            protectedRoute ks now draw handler w r = AuthMiddleware ks handler w r \<and>
            respHeader (protectedRoute ks now draw handler w r) ''X-Request-Id''
              = respHeader w ''X-Request-Id'' \<and>
            (statusCode w = None \<longrightarrow>
               statusCode (protectedRoute ks now draw handler w r) = Some 401))"
proof (intro conjI impI)
  assume v: "token \<noteq> [] \<and> buildKeyMap ks token = Some app"
  show "protectedRoute ks now draw handler w r =
              handler
                ((if isResponseWriter w
                  then w\<lparr>lookups := lookups w @ [token], rwApplication := app\<rparr>
                  else w\<lparr>lookups := lookups w @ [token]\<rparr>)
                 \<lparr>respHeader := (respHeader w)(''X-Request-Id'' \<mapsto> [generateRequestID now draw])\<rparr>)
                (r\<lparr>ctxApplication := Some app,
                   ctxRequestID := Some (generateRequestID now draw)\<rparr>)"
    using v AuthMiddleware_valid [OF assms, of ks app]
    by (simp add: protectedRoute_unfold RequestIDMiddleware_def Let_def Header_Set_def canon_simps)
next
  assume f: "token = [] \<or> buildKeyMap ks token = None"
  have indep: "AuthMiddleware ks n1 w r = AuthMiddleware ks n2 w r" for n1 n2
  proof (cases "token = []")
    case True
    then have "fst (extractToken r) = []" using assms by simp
    then show ?thesis by (simp add: AuthMiddleware_missing)
  next
    case False
    then have "buildKeyMap ks token = None" using f by simp
    then show ?thesis using AuthMiddleware_invalid [OF assms False] by simp
  qed
  have eq: "protectedRoute ks now draw handler w r = AuthMiddleware ks handler w r"
    unfolding protectedRoute_unfold by (rule indep)
  show "protectedRoute ks now draw handler w r = AuthMiddleware ks handler w r"
    by (rule eq)
  have fail: "\<exists>w0 msg. AuthMiddleware ks handler w r = http_Error w0 msg StatusUnauthorized \<and>
                respHeader w0 = respHeader w \<and> statusCode w0 = statusCode w"
  proof (cases "token = []")
    case True
    then have "fst (extractToken r) = []" using assms by simp
    then show ?thesis by (auto simp add: AuthMiddleware_missing intro!: exI)
  next
    case False
    then have "buildKeyMap ks token = None" using f by simp
    then show ?thesis using AuthMiddleware_invalid [OF assms False]
      by (auto intro!: exI)
  qed
  then obtain w0 msg where w0: "AuthMiddleware ks handler w r = http_Error w0 msg StatusUnauthorized"
    "respHeader w0 = respHeader w" "statusCode w0 = statusCode w" by blast
  show "respHeader (protectedRoute ks now draw handler w r) ''X-Request-Id''
              = respHeader w ''X-Request-Id''"
    by (simp add: eq w0 http_Error_request_id)
  { assume "statusCode w = None"
    then show "statusCode (protectedRoute ks now draw handler w r) = Some 401"
      by (simp add: eq w0 http_Error_status StatusUnauthorized_def) }
qed

lemma sample_request_id: "generateRequestID sampleNow sampleDraw = ''20260101120000-ahov29gn''"
  by code_simp

theorem request_id_set_after_auth_witness:
  "protectedRoute testKeys sampleNow sampleDraw okHandler freshWriter (bearerRequest ''valid-key'') =
     okHandler
       (freshWriter\<lparr>lookups := [''valid-key''], rwApplication := ''app'',
          respHeader := [''X-Request-Id'' \<mapsto> [''20260101120000-ahov29gn'']]\<rparr>)
       ((bearerRequest ''valid-key'')\<lparr>ctxApplication := Some ''app'',
          ctxRequestID := Some ''20260101120000-ahov29gn''\<rparr>) \<and>
   respHeader (protectedRoute testKeys sampleNow sampleDraw okHandler freshWriter
     (bearerRequest ''wrong-key'')) ''X-Request-Id'' = None"
proof -
  note tv = request_id_set_after_auth [OF extractToken_bearerRequest,
      of "''valid-key''" testKeys "''app''" sampleNow sampleDraw okHandler freshWriter]
  note tw = request_id_set_after_auth [OF extractToken_bearerRequest,
      of "''wrong-key''" testKeys "''app''" sampleNow sampleDraw okHandler freshWriter]
  have f: "isResponseWriter freshWriter" "lookups freshWriter = []"
    "respHeader freshWriter = Map.empty"
    by (simp_all add: freshWriter_def)
  have c1: "protectedRoute testKeys sampleNow sampleDraw okHandler freshWriter (bearerRequest ''valid-key'') =
     okHandler
       (freshWriter\<lparr>lookups := [''valid-key''], rwApplication := ''app'',
          respHeader := [''X-Request-Id'' \<mapsto> [''20260101120000-ahov29gn'']]\<rparr>)
       ((bearerRequest ''valid-key'')\<lparr>ctxApplication := Some ''app'',
          ctxRequestID := Some ''20260101120000-ahov29gn''\<rparr>)"
    using tv [THEN conjunct1] testKeys_valid by (simp add: f sample_request_id)
  have c2: "respHeader (protectedRoute testKeys sampleNow sampleDraw okHandler freshWriter
     (bearerRequest ''wrong-key'')) ''X-Request-Id'' = None"
    using tw [THEN conjunct2, THEN mp, OF disjI2, OF testKeys_wrong, THEN conjunct2, THEN conjunct1]
    by (simp add: f)
  show ?thesis using c1 c2 by blast
qed



section \<open>Claims about the configuration\<close>

text \<open>
  Claim C7. For a configuration with a strategy, \<open>validateModelConfig\<close> rejects an empty
  target list and rejects every mode other than \<open>fallback\<close> and \<open>loadbalance\<close>; with
  at least one target and one of the two modes, the strategy part is accepted and the
  result is that of checking the targets one by one.
\<close>

theorem strategy_validation:
  assumes "Strategy model = Some strategy"
  shows "(Targets model = [] \<longrightarrow> validateModelConfig alias model = Some (ErrNoTargets alias)) \<and>
         (Targets model \<noteq> [] \<and> Mode strategy \<noteq> ''fallback'' \<and> Mode strategy \<noteq> ''loadbalance'' \<longrightarrow>
            validateModelConfig alias model = Some (ErrInvalidMode alias (Mode strategy))) \<and>
         (Targets model \<noteq> [] \<and> (Mode strategy = ''fallback'' \<or> Mode strategy = ''loadbalance'') \<longrightarrow>
            validateModelConfig alias model = validateTargets alias 0 (Targets model))"
  using assms by (auto simp add: validateModelConfig_def)

lemma multiTarget_targets_ok: "validateTargets ''multi'' 0 [openaiTarget, anthropicTarget] = None"
  by (simp add: openaiTarget_def anthropicTarget_def zeroTargetConfig_def
        validateProviderConfig_def)

theorem strategy_validation_witness:
  "validateModelConfig ''multi'' noTargetsModel = Some (ErrNoTargets ''multi'') \<and>
   validateModelConfig ''multi'' roundRobinModel = Some (ErrInvalidMode ''multi'' ''roundrobin'') \<and>
   validateModelConfig ''multi'' multiTargetModel = None"
proof -
  have s1: "Strategy noTargetsModel = Some fallbackStrategy"
    and t1: "Targets noTargetsModel = []"
    by (simp_all add: noTargetsModel_def zeroModelConfig_def)
  have s2: "Strategy roundRobinModel = Some \<lparr>Mode = ''roundrobin'', OnStatusCodes = []\<rparr>"
    and t2: "Targets roundRobinModel = [openaiTarget]"
    by (simp_all add: roundRobinModel_def zeroModelConfig_def)
  have s3: "Strategy multiTargetModel = Some fallbackStrategy"
    and t3: "Targets multiTargetModel = [openaiTarget, anthropicTarget]"
    by (simp_all add: multiTargetModel_def zeroModelConfig_def)
  have c1: "validateModelConfig ''multi'' noTargetsModel = Some (ErrNoTargets ''multi'')"
    using strategy_validation [OF s1, of "''multi''"] by (simp add: t1)
  have c2: "validateModelConfig ''multi'' roundRobinModel
              = Some (ErrInvalidMode ''multi'' ''roundrobin'')"
    using strategy_validation [OF s2, of "''multi''"] by (simp add: t2)
  have "validateModelConfig ''multi'' multiTargetModel
          = validateTargets ''multi'' 0 (Targets multiTargetModel)"
    using strategy_validation [OF s3, of "''multi''", THEN conjunct2, THEN conjunct2]
    by (simp add: t3 fallbackStrategy_def del: validateTargets.simps)
  then have c3: "validateModelConfig ''multi'' multiTargetModel = None"
    by (simp only: t3 multiTarget_targets_ok)
  show ?thesis using c1 c2 c3 by blast
qed

text \<open>
  Claim C8 says that validation rejects a target with a provider outside the five known
  ones, and a \<open>vertex-ai\<close> target without project, region and service account. The
  target check has no default case and an empty \<open>vertex-ai\<close> case, so both
  configurations are accepted, while the single-provider check rejects the same providers.
\<close>

theorem target_provider_not_checked:
  "validateModelConfig ''multi'' unknownTargetModel = None \<and>
   validateModelConfig ''multi'' vertexTargetModel = None \<and>
   validateModelConfig ''single'' (zeroModelConfig\<lparr>Provider := ''fakeprovider''\<rparr>)
     = Some (ErrUnknownProvider ''single'' ''fakeprovider'') \<and>
   validateModelConfig ''single'' (zeroModelConfig\<lparr>Provider := ''vertex-ai''\<rparr>)
     = Some (ErrMissingVertex ''single'')"
  by (simp add: validateModelConfig_def unknownTargetModel_def vertexTargetModel_def
        zeroModelConfig_def zeroTargetConfig_def fallbackStrategy_def
        validateProviderConfig_def validateSingleProviderConfig_def)

text \<open>
  Claim C6. \<open>buildPortkeyConfig\<close> copies \<open>retry\<close> and \<open>request_timeout\<close> in both
  cases. Without a strategy it copies provider, API key and every override parameter; the
  four AWS fields are copied exactly when the provider is \<open>bedrock\<close> and the three Vertex
  fields exactly when it is \<open>vertex-ai\<close>, and are left empty otherwise. With a strategy
  it copies the strategy and the target list as they are and nothing else.
\<close>

theorem buildPortkeyConfig_copies:
  "pkRetry (buildPortkeyConfig model) = Retry model \<and>
   pkRequestTimeout (buildPortkeyConfig model) = RequestTimeout model \<and>
   (Strategy model = None \<longrightarrow>
      pkProvider (buildPortkeyConfig model) = Provider model \<and>
      pkAPIKey (buildPortkeyConfig model) = APIKey model \<and>
      pkOverrideParams (buildPortkeyConfig model) = OverrideParams model \<and>
      pkStrategy (buildPortkeyConfig model) = None \<and>
      pkTargets (buildPortkeyConfig model) = [] \<and>
      (Provider model = ''bedrock'' \<longrightarrow>
         pkAWSAccessKeyID (buildPortkeyConfig model) = AWSAccessKeyID model \<and>
         pkAWSSecretAccessKey (buildPortkeyConfig model) = AWSSecretAccessKey model \<and>
         pkAWSRegion (buildPortkeyConfig model) = AWSRegion model \<and>
         pkAWSSessionToken (buildPortkeyConfig model) = AWSSessionToken model) \<and>
      (Provider model \<noteq> ''bedrock'' \<longrightarrow>
         pkAWSAccessKeyID (buildPortkeyConfig model) = [] \<and>
         pkAWSSecretAccessKey (buildPortkeyConfig model) = [] \<and>
         pkAWSRegion (buildPortkeyConfig model) = [] \<and>
         pkAWSSessionToken (buildPortkeyConfig model) = []) \<and>
      (Provider model = ''vertex-ai'' \<longrightarrow>
         pkVertexProjectID (buildPortkeyConfig model) = VertexProjectID model \<and>
         pkVertexRegion (buildPortkeyConfig model) = VertexRegion model \<and>
         pkVertexServiceAccountJSON (buildPortkeyConfig model) = VertexServiceAccountJSON model) \<and>
      (Provider model \<noteq> ''vertex-ai'' \<longrightarrow>
         pkVertexProjectID (buildPortkeyConfig model) = [] \<and>
         pkVertexRegion (buildPortkeyConfig model) = [] \<and>
         pkVertexServiceAccountJSON (buildPortkeyConfig model) = [])) \<and>
   (\<forall>strategy. Strategy model = Some strategy \<longrightarrow>
      buildPortkeyConfig model =
        zeroPortkeyConfig\<lparr>pkStrategy := Some strategy, pkTargets := Targets model,
          pkRetry := Retry model, pkRequestTimeout := RequestTimeout model\<rparr>)"
  by (cases "Strategy model") (simp_all add: buildPortkeyConfig_def zeroPortkeyConfig_def Let_def)

theorem buildPortkeyConfig_copies_witness:
  "pkAWSSessionToken (buildPortkeyConfig bedrockModel) = ''token'' \<and>
   pkVertexProjectID (buildPortkeyConfig bedrockModel) = [] \<and>
   pkOverrideParams (buildPortkeyConfig bedrockModel) ''model'' = Some (GString ''claude'') \<and>
   pkVertexRegion (buildPortkeyConfig vertexModel) = ''us-central1'' \<and>
   pkAWSRegion (buildPortkeyConfig vertexModel) = [] \<and>
   pkRetry (buildPortkeyConfig vertexModel) = Some \<lparr>Attempts = 3, retryOnStatusCodes = []\<rparr> \<and>
   pkTargets (buildPortkeyConfig multiTargetModel) = [openaiTarget, anthropicTarget] \<and>
   pkStrategy (buildPortkeyConfig multiTargetModel) = Some fallbackStrategy \<and>
   pkRequestTimeout (buildPortkeyConfig multiTargetModel) = 30000"
proof -
  note b = buildPortkeyConfig_copies [of bedrockModel]
  note v = buildPortkeyConfig_copies [of vertexModel]
  note m = buildPortkeyConfig_copies [of multiTargetModel]
  have fb: "Strategy bedrockModel = None" "Provider bedrockModel = ''bedrock''"
    "AWSSessionToken bedrockModel = ''token''"
    "OverrideParams bedrockModel ''model'' = Some (GString ''claude'')"
    by (simp_all add: bedrockModel_def zeroModelConfig_def)
  have fv: "Strategy vertexModel = None" "Provider vertexModel = ''vertex-ai''"
    "VertexRegion vertexModel = ''us-central1''"
    "Retry vertexModel = Some \<lparr>Attempts = 3, retryOnStatusCodes = []\<rparr>"
    by (simp_all add: vertexModel_def zeroModelConfig_def)
  have fm: "Strategy multiTargetModel = Some fallbackStrategy"
    "Targets multiTargetModel = [openaiTarget, anthropicTarget]"
    "RequestTimeout multiTargetModel = 30000"
    by (simp_all add: multiTargetModel_def zeroModelConfig_def)
  have cb: "pkAWSSessionToken (buildPortkeyConfig bedrockModel) = ''token'' \<and>
   pkVertexProjectID (buildPortkeyConfig bedrockModel) = [] \<and>
   pkOverrideParams (buildPortkeyConfig bedrockModel) ''model'' = Some (GString ''claude'')"
    using b by (simp add: fb)
  have cv: "pkVertexRegion (buildPortkeyConfig vertexModel) = ''us-central1'' \<and>
   pkAWSRegion (buildPortkeyConfig vertexModel) = [] \<and>
   pkRetry (buildPortkeyConfig vertexModel) = Some \<lparr>Attempts = 3, retryOnStatusCodes = []\<rparr>"
    using v by (simp add: fv)
  have cm: "pkTargets (buildPortkeyConfig multiTargetModel) = [openaiTarget, anthropicTarget] \<and>
   pkStrategy (buildPortkeyConfig multiTargetModel) = Some fallbackStrategy \<and>
   pkRequestTimeout (buildPortkeyConfig multiTargetModel) = 30000"
    using m by (simp add: fm)
  show ?thesis using cb cv cm by blast
qed

lemma wrapInt64_id: "- (2 ^ 63) \<le> x \<Longrightarrow> x < 2 ^ 63 \<Longrightarrow> wrapInt64 x = x"
  by (simp add: wrapInt64_def)

text \<open>
  Claim C9 says that the deadline equals the configured \<open>request_timeout\<close>. The
  conversion to seconds is an integer division, so a timeout of 1500 milliseconds gives a
  deadline of one second (the deadline is in nanoseconds).
\<close>

theorem deadline_truncates_counterexample:
  "getTimeout (zeroModelConfig\<lparr>RequestTimeout := 1500\<rparr>) = 1 \<and>
   requestDeadline (zeroModelConfig\<lparr>RequestTimeout := 1500\<rparr>) = 1000000000 \<and>
   requestDeadline (zeroModelConfig\<lparr>RequestTimeout := 1500\<rparr>) \<noteq> 1500 * 1000000"
  by (simp add: getTimeout_def requestDeadline_def wrapInt64_def zeroModelConfig_def)

text \<open>
  Claim C9, amended. For a positive \<open>request_timeout\<close> the deadline is the timeout
  rounded down to whole seconds: it is at most the configured timeout, less than one second
  below it, and equal to it when the timeout is a multiple of 1000 milliseconds. Without a
  positive timeout the deadline is 60 seconds. (The bound on the timeout keeps the
  duration within 64 bits.)
\<close>

theorem deadline_whole_seconds:
  assumes "RequestTimeout model < 9223372037000"
  shows "(0 < RequestTimeout model \<longrightarrow>
            getTimeout model = RequestTimeout model div 1000 \<and>
            requestDeadline model = (RequestTimeout model div 1000) * 1000000000 \<and>
            requestDeadline model \<le> RequestTimeout model * 1000000 \<and>
            RequestTimeout model * 1000000 < requestDeadline model + 1000000000 \<and>
            (1000 dvd RequestTimeout model \<longrightarrow>
               requestDeadline model = RequestTimeout model * 1000000)) \<and>
         (RequestTimeout model \<le> 0 \<longrightarrow>
            getTimeout model = 60 \<and> requestDeadline model = 60 * 1000000000)"
proof (intro conjI impI)
  assume pos: "0 < RequestTimeout model"
  let ?t = "RequestTimeout model"
  show g: "getTimeout model = ?t div 1000" using pos by (simp add: getTimeout_def)
  have q: "0 \<le> ?t div 1000" "?t div 1000 < 9223372037" using pos assms by simp_all
  have "wrapInt64 (?t div 1000 * 1000000000) = ?t div 1000 * 1000000000"
    using q by (intro wrapInt64_id) simp_all
  then show d: "requestDeadline model = ?t div 1000 * 1000000000"
    by (simp add: requestDeadline_def g)
  have "?t div 1000 * 1000 \<le> ?t" by simp
  then show "requestDeadline model \<le> ?t * 1000000" by (simp add: d)
  have "?t < ?t div 1000 * 1000 + 1000"
    using div_mult_mod_eq [of ?t 1000] pos_mod_bound [of 1000 ?t] by linarith
  then show "?t * 1000000 < requestDeadline model + 1000000000" by (simp add: d)
  { assume "1000 dvd ?t"
    then have "?t div 1000 * 1000 = ?t" by simp
    then show "requestDeadline model = ?t * 1000000" by (simp add: d) }
next
  assume "RequestTimeout model \<le> 0"
  then show "getTimeout model = 60" by (simp add: getTimeout_def)
next
  assume "RequestTimeout model \<le> 0"
  then show "requestDeadline model = 60 * 1000000000"
    by (simp add: getTimeout_def requestDeadline_def wrapInt64_def)
qed

theorem deadline_whole_seconds_witness:
  "requestDeadline (zeroModelConfig\<lparr>RequestTimeout := 1500\<rparr>) = 1000000000 \<and>
   requestDeadline (zeroModelConfig\<lparr>RequestTimeout := 30000\<rparr>) = 30000 * 1000000 \<and>
   requestDeadline zeroModelConfig = 60 * 1000000000"
proof -
  have r: "RequestTimeout (zeroModelConfig\<lparr>RequestTimeout := 1500\<rparr>) = 1500"
    "RequestTimeout (zeroModelConfig\<lparr>RequestTimeout := 30000\<rparr>) = 30000"
    "RequestTimeout zeroModelConfig = 0"
    by (simp_all add: zeroModelConfig_def)
  have c1: "requestDeadline (zeroModelConfig\<lparr>RequestTimeout := 1500\<rparr>) = 1000000000"
    using deadline_whole_seconds [of "zeroModelConfig\<lparr>RequestTimeout := 1500\<rparr>"]
    by (simp add: r)
  have c2: "requestDeadline (zeroModelConfig\<lparr>RequestTimeout := 30000\<rparr>) = 30000 * 1000000"
    using deadline_whole_seconds [of "zeroModelConfig\<lparr>RequestTimeout := 30000\<rparr>"]
    by (simp add: r)
  have c3: "requestDeadline zeroModelConfig = 60 * 1000000000"
    using deadline_whole_seconds [of zeroModelConfig] by (simp add: r)
  show ?thesis using c1 c2 c3 by blast
qed

section \<open>Facts about canonical header names and forwarding\<close>

lemma of_char_toLowerByte:
  "(of_char (toLowerByte c) :: nat) =
     (if 65 \<le> (of_char c :: nat) \<and> (of_char c :: nat) \<le> 90 then of_char c + 32 else of_char c)"
  by (simp add: toLowerByte_def isUpperByte_def)

lemma of_char_toUpperByte:
  "(of_char (toUpperByte c) :: nat) =
     (if 97 \<le> (of_char c :: nat) \<and> (of_char c :: nat) \<le> 122 then of_char c - 32 else of_char c)"
proof -
  have "(of_char c :: nat) - 32 < 256"
    using nat_of_char_less_256 [of c] by linarith
  then show ?thesis by (simp add: toUpperByte_def isLowerByte_def)
qed

lemma lower_eq_imp_upper_eq:
  assumes "toLowerByte c = toLowerByte d"
  shows "toUpperByte c = toUpperByte d"
proof -
  have "(of_char (toLowerByte c) :: nat) = of_char (toLowerByte d)" using assms by simp
  then have "(of_char (toUpperByte c) :: nat) = of_char (toUpperByte d)"
    unfolding of_char_toLowerByte of_char_toUpperByte
    by (auto split: if_splits)
  then show ?thesis by simp
qed

lemma toLower_toLower [simp]: "toLowerByte (toLowerByte c) = toLowerByte c"
  by (rule of_char_eqI [where ?'a = nat]) (simp add: of_char_toLowerByte)

lemma toLower_toUpper [simp]: "toLowerByte (toUpperByte c) = toLowerByte c"
  by (rule of_char_eqI [where ?'a = nat]) (auto simp add: of_char_toLowerByte of_char_toUpperByte)

lemma valid_lower_iff: "validHeaderFieldByte (toLowerByte c) = validHeaderFieldByte c"
proof (cases "isUpperByte c")
  case True
  then have "isLowerByte (toLowerByte c)"
    by (simp add: isLowerByte_def isUpperByte_def of_char_toLowerByte)
  then show ?thesis using True by (simp add: validHeaderFieldByte_def)
next
  case False
  then show ?thesis by (simp add: toLowerByte_def)
qed

lemma lower_eq_imp_valid_eq:
  assumes "toLowerByte c = toLowerByte d"
  shows "validHeaderFieldByte c = validHeaderFieldByte d"
  using assms valid_lower_iff [of c] valid_lower_iff [of d] by simp

lemma lower_eq_imp_all_valid_eq:
  "map toLowerByte k = map toLowerByte s \<Longrightarrow>
     list_all validHeaderFieldByte k = list_all validHeaderFieldByte s"
proof (induction k arbitrary: s)
  case Nil
  then show ?case by simp
next
  case (Cons c cs)
  then obtain d ds where s: "s = d # ds" by (cases s) auto
  with Cons.prems have "toLowerByte c = toLowerByte d" "map toLowerByte cs = map toLowerByte ds"
    by simp_all
  then show ?case using Cons.IH [of ds] lower_eq_imp_valid_eq [of c d] by (simp add: s)
qed

lemma lower_eq_imp_canonBytes_eq:
  "map toLowerByte k = map toLowerByte s \<Longrightarrow> canonBytes u k = canonBytes u s"
proof (induction k arbitrary: s u)
  case Nil
  then show ?case by simp
next
  case (Cons c cs)
  then obtain d ds where s: "s = d # ds" by (cases s) auto
  with Cons.prems have e: "toLowerByte c = toLowerByte d"
    and r: "map toLowerByte cs = map toLowerByte ds"
    by simp_all
  have "(if u then toUpperByte c else toLowerByte c) = (if u then toUpperByte d else toLowerByte d)"
    using e lower_eq_imp_upper_eq [OF e] by simp
  then show ?case using Cons.IH [OF r] by (simp add: s Let_def)
qed

lemma lower_eq_imp_canonical_eq:
  assumes "ToLower k = ToLower s" and "list_all validHeaderFieldByte s"
  shows "CanonicalHeaderKey k = CanonicalHeaderKey s"
proof -
  have m: "map toLowerByte k = map toLowerByte s" using assms(1) by (simp add: ToLower_def)
  have "list_all validHeaderFieldByte k"
    using lower_eq_imp_all_valid_eq [OF m] assms(2) by simp
  then show ?thesis
    using assms(2) lower_eq_imp_canonBytes_eq [OF m] by (simp add: CanonicalHeaderKey_def)
qed

lemma lower_canonBytes: "map toLowerByte (canonBytes u k) = map toLowerByte k"
  by (induction k arbitrary: u) (simp_all add: Let_def)

lemma ToLower_canonical: "ToLower (CanonicalHeaderKey k) = ToLower k"
  by (simp add: CanonicalHeaderKey_def ToLower_def lower_canonBytes)

lemma hop_names_valid: "s \<in> hopByHopHeaders \<Longrightarrow> list_all validHeaderFieldByte s"
  unfolding hopByHopHeaders_def by (elim insertE emptyE; hypsubst; code_simp)

lemma hop_names_canonical: "s \<in> hopByHopHeaders \<Longrightarrow> CanonicalHeaderKey s = s"
  unfolding hopByHopHeaders_def by (elim insertE emptyE; hypsubst; code_simp)

lemma hop_match_case_insensitive:
  "CanonicalHeaderKey k \<in> hopByHopHeaders \<longleftrightarrow> ToLower k \<in> ToLower ` hopByHopHeaders"
proof
  assume "CanonicalHeaderKey k \<in> hopByHopHeaders"
  then have "ToLower (CanonicalHeaderKey k) \<in> ToLower ` hopByHopHeaders" by (rule imageI)
  then show "ToLower k \<in> ToLower ` hopByHopHeaders" by (simp add: ToLower_canonical)
next
  assume "ToLower k \<in> ToLower ` hopByHopHeaders"
  then obtain s where s: "s \<in> hopByHopHeaders" "ToLower k = ToLower s" by blast
  have "CanonicalHeaderKey k = CanonicalHeaderKey s"
    by (rule lower_eq_imp_canonical_eq [OF s(2) hop_names_valid [OF s(1)]])
  then show "CanonicalHeaderKey k \<in> hopByHopHeaders"
    using s(1) by (simp add: hop_names_canonical)
qed

lemma fold_Header_Add:
  "fold (\<lambda>v d'. Header_Add d' key v) values d =
     (if values = [] then d
      else d(CanonicalHeaderKey key \<mapsto> valuesAt d (CanonicalHeaderKey key) @ values))"
proof (induction "values" arbitrary: d)
  case Nil
  then show ?case by simp
next
  case (Cons v vs)
  let ?ck = "CanonicalHeaderKey key"
  have d1: "Header_Add d key v = d(?ck \<mapsto> valuesAt d ?ck @ [v])"
    by (cases "d ?ck") (simp_all add: Header_Add_def valuesAt_def)
  have v1: "valuesAt (d(?ck \<mapsto> valuesAt d ?ck @ [v])) ?ck = valuesAt d ?ck @ [v]"
    by (simp add: valuesAt_def)
  let ?d1 = "d(?ck \<mapsto> valuesAt d ?ck @ [v])"
  have "fold (\<lambda>v d'. Header_Add d' key v) (v # vs) d
          = fold (\<lambda>v d'. Header_Add d' key v) vs ?d1"
    by (simp add: d1)
  also have "\<dots> = (if vs = [] then ?d1 else ?d1(?ck \<mapsto> valuesAt ?d1 ?ck @ vs))"
    by (rule Cons.IH)
  also have "\<dots> = d(?ck \<mapsto> valuesAt d ?ck @ v # vs)"
    by (cases vs) (simp_all add: valuesAt_def)
  finally show ?case by simp
qed

lemma copyHeaders_general:
  "copyHeaders src dst h =
     (if forwardedValues src h = [] then dst h
      else Some (valuesAt dst h @ forwardedValues src h))"
proof (induction src arbitrary: dst)
  case Nil
  then show ?case by (simp add: copyHeaders_def forwardedValues_def)
next
  case (Cons kv rest)
  obtain key "values" where kv: "kv = (key, values)" by (cases kv)
  let ?d1 = "if CanonicalHeaderKey key \<in> hopByHopHeaders then dst
             else fold (\<lambda>v d'. Header_Add d' key v) values dst"
  have step: "copyHeaders (kv # rest) dst = copyHeaders rest ?d1"
    by (simp add: copyHeaders_def kv)
  show ?case
  proof (cases "CanonicalHeaderKey key \<in> hopByHopHeaders")
    case True
    then have "forwardedValues (kv # rest) h = forwardedValues rest h"
      by (auto simp add: forwardedValues_def kv)
    then show ?thesis using True by (simp add: step Cons.IH)
  next
    case False
    show ?thesis
    proof (cases "h = CanonicalHeaderKey key")
      case h: True
      have ck: "CanonicalHeaderKey key = h" using h by simp
      have nh: "h \<notin> hopByHopHeaders" using False ck by simp
      have fv: "forwardedValues (kv # rest) h = values @ forwardedValues rest h"
        using nh by (simp add: forwardedValues_def kv ck)
      have d1: "?d1 = (if values = [] then dst else dst(h \<mapsto> valuesAt dst h @ values))"
        using nh by (simp add: fold_Header_Add ck)
      show ?thesis
      proof (cases "values = []")
        case True
        then show ?thesis by (simp add: step d1 Cons.IH fv)
      next
        case nv: False
        show ?thesis using nv by (simp add: step d1 Cons.IH fv valuesAt_def)
      qed
    next
      case h: False
      then have fv: "forwardedValues (kv # rest) h = forwardedValues rest h"
        by (auto simp add: forwardedValues_def kv)
      have d1h: "?d1 h = dst h" "valuesAt ?d1 h = valuesAt dst h"
        using False h by (simp_all add: fold_Header_Add valuesAt_def)
      show ?thesis
        unfolding step Cons.IH fv d1h by (rule refl)
    qed
  qed
qed

lemma filter_distinct_key:
  assumes "distinct (map f xs)" and "x \<in> set xs"
  shows "filter (\<lambda>y. f y = f x) xs = [x]"
  using assms
proof (induction xs)
  case Nil
  then show ?case by simp
next
  case (Cons a xs)
  show ?case
  proof (cases "a = x")
    case True
    have "\<forall>y \<in> set xs. f y \<noteq> f x" using Cons.prems(1) True by (auto simp add: image_iff)
    then have "filter (\<lambda>y. f y = f x) xs = []" by (simp add: filter_empty_conv)
    then show ?thesis using True by simp
  next
    case False
    then have x: "x \<in> set xs" using Cons.prems(2) by simp
    then have "f a \<noteq> f x" using Cons.prems(1) by auto
    then show ?thesis using Cons.IH x Cons.prems(1) by simp
  qed
qed

lemma forwardedValues_distinct:
  assumes "distinct (map (\<lambda>kv. CanonicalHeaderKey (fst kv)) src)" and "(k, vs) \<in> set src"
  shows "forwardedValues src (CanonicalHeaderKey k) =
           (if CanonicalHeaderKey k \<in> hopByHopHeaders then [] else vs)"
  using filter_distinct_key [OF assms] by (simp add: forwardedValues_def)

section \<open>Claims about header forwarding\<close>

text \<open>
  Claim C5. Starting from an empty destination, \<open>copyHeaders\<close> leaves under each name
  exactly the values of the source headers with that canonical name, and nothing under the
  ten excluded names. A source header is excluded exactly when its name equals one of the
  ten names up to letter case. When the source has each header once (as the headers of a
  received request do), a header outside the set arrives with its list of values
  unchanged, and a header in the set does not arrive.
\<close>

theorem copyHeaders_forwards:
  "copyHeaders src Map.empty h =
     (if forwardedValues src h = [] then None else Some (forwardedValues src h)) \<and>
   (h \<in> hopByHopHeaders \<longrightarrow> copyHeaders src Map.empty h = None) \<and>
   (CanonicalHeaderKey k \<in> hopByHopHeaders \<longleftrightarrow> ToLower k \<in> ToLower ` hopByHopHeaders) \<and>
   (distinct (map (\<lambda>kv. CanonicalHeaderKey (fst kv)) src) \<and> (k, vs) \<in> set src \<and> vs \<noteq> [] \<longrightarrow>
      copyHeaders src Map.empty (CanonicalHeaderKey k) =
        (if CanonicalHeaderKey k \<in> hopByHopHeaders then None else Some vs))"
proof (intro conjI impI)
  show g: "copyHeaders src Map.empty h =
     (if forwardedValues src h = [] then None else Some (forwardedValues src h))" for h
    by (simp add: copyHeaders_general valuesAt_def)
  show "copyHeaders src Map.empty h = None" if "h \<in> hopByHopHeaders"
    using that by (simp add: g forwardedValues_def)
  show "CanonicalHeaderKey k \<in> hopByHopHeaders \<longleftrightarrow> ToLower k \<in> ToLower ` hopByHopHeaders"
    by (rule hop_match_case_insensitive)
  show "copyHeaders src Map.empty (CanonicalHeaderKey k) =
        (if CanonicalHeaderKey k \<in> hopByHopHeaders then None else Some vs)"
    if "distinct (map (\<lambda>kv. CanonicalHeaderKey (fst kv)) src) \<and> (k, vs) \<in> set src \<and> vs \<noteq> []"
  proof -
    from that have d: "distinct (map (\<lambda>kv. CanonicalHeaderKey (fst kv)) src)"
      and m: "(k, vs) \<in> set src" and nv: "vs \<noteq> []" by simp_all
    show ?thesis
      using nv by (simp add: g forwardedValues_distinct [OF d m])
  qed
qed

lemma sampleHeaders_distinct:
  "distinct (map (\<lambda>kv. CanonicalHeaderKey (fst kv)) sampleHeaders)"
  unfolding sampleHeaders_def by code_simp

lemma hop_member_samples:
  "''Connection'' \<in> hopByHopHeaders" "''X-Api-Key'' \<in> hopByHopHeaders"
  "''X-Custom-Header'' \<notin> hopByHopHeaders"
  by (simp_all add: hopByHopHeaders_def)

lemma canon_custom: "CanonicalHeaderKey ''X-Custom-Header'' = ''X-Custom-Header''"
  by code_simp

theorem copyHeaders_forwards_witness:
  "copyHeaders sampleHeaders Map.empty ''Connection'' = None \<and>
   copyHeaders sampleHeaders Map.empty ''X-Api-Key'' = None \<and>
   copyHeaders sampleHeaders Map.empty ''X-Custom-Header'' = Some [''a'', ''b'']"
proof -
  have m1: "(''x-api-key'', [''secret-key'']) \<in> set sampleHeaders"
    and m2: "(''X-Custom-Header'', [''a'', ''b'']) \<in> set sampleHeaders"
    by (simp_all add: sampleHeaders_def)
  have c1: "copyHeaders sampleHeaders Map.empty ''Connection'' = None"
    using copyHeaders_forwards [of sampleHeaders "''Connection''" "''x-api-key''" "[''secret-key'']"]
      hop_member_samples by blast
  have c2: "copyHeaders sampleHeaders Map.empty ''X-Api-Key'' = None"
    using copyHeaders_forwards [of sampleHeaders "''Connection''" "''x-api-key''" "[''secret-key'']"]
      sampleHeaders_distinct m1 hop_member_samples
    by (simp add: canon_x_api_key)
  have c3: "copyHeaders sampleHeaders Map.empty ''X-Custom-Header'' = Some [''a'', ''b'']"
    using copyHeaders_forwards [of sampleHeaders "''Connection''" "''X-Custom-Header''" "[''a'', ''b'']"]
      sampleHeaders_distinct m2 hop_member_samples
    by (simp add: canon_custom)
  show ?thesis using c1 c2 c3 by blast
qed

section \<open>Claims about the token budget\<close>








end
